theory Spec2Isabelle
  imports Main
begin

section \<open>Lifecycle-policy form schema\<close>

text \<open>
  The form schema is a nested object whose leaves are field descriptors. The phase
  types of the source are string-literal unions: \<open>PhaseWithDownsample\<close> is
  \<open>'hot' | 'warm' | 'cold'\<close> and \<open>PhaseWithTiming\<close> is
  \<open>'warm' | 'cold' | 'frozen' | 'delete'\<close>.
\<close>

datatype PhaseWithDownsample = DS_hot | DS_warm | DS_cold

datatype PhaseWithTiming = TM_warm | TM_cold | TM_frozen | TM_delete

text \<open>The string a phase value is in the source (it is interpolated into paths).\<close>

fun downsamplePhaseName :: "PhaseWithDownsample \<Rightarrow> string" where
  "downsamplePhaseName DS_hot = ''hot''"
| "downsamplePhaseName DS_warm = ''warm''"
| "downsamplePhaseName DS_cold = ''cold''"

fun timingPhaseName :: "PhaseWithTiming \<Rightarrow> string" where
  "timingPhaseName TM_warm = ''warm''"
| "timingPhaseName TM_cold = ''cold''"
| "timingPhaseName TM_frozen = ''frozen''"
| "timingPhaseName TM_delete = ''delete''"

text \<open>
  Texts come either from the imported table \<open>i18nTexts\<close> (referred to by the
  property path read from it) or from a call \<open>i18n.translate(id, {defaultMessage})\<close>.
\<close>

datatype i18nText = I18nTexts string | Translate string string

text \<open>
  The validators are imported functions and validator factories; a descriptor holds
  references to them, in order. A factory call is recorded with its arguments.
\<close>

datatype validator =
    EmptyField i18nText
  | IsInteger i18nText
  | NumberGreaterThanField i18nText int
  | IfExistsNumberGreaterThanZero
  | IfExistsNumberNonNegative
  | MinAgeGreaterThanPreviousPhase PhaseWithTiming
  | RolloverThresholdsValidator
  | DownsampleIntervalMultipleOfPreviousOne PhaseWithDownsample

datatype defval = DBool bool | DString string | DNumber int

datatype serializer = StringToNumber

text \<open>
  A field descriptor. A key the object literal does not write (and a key written with
  the value \<open>undefined\<close>) is \<open>None\<close>; \<open>fieldsToValidateOnChange: []\<close> is
  \<open>Some []\<close>.
\<close>

record fieldConfig =
  label :: "i18nText option"
  defaultValue :: "defval option"
  helpText :: "i18nText option"
  validations :: "validator list option"
  serializer :: "serializer option"
  fieldsToValidateOnChange :: "string list option"

definition noConfig :: fieldConfig where
  "noConfig = \<lparr> label = None, defaultValue = None, helpText = None, validations = None,
     serializer = None, fieldsToValidateOnChange = None \<rparr>"

datatype schema = Field fieldConfig | Group "(string \<times> schema) list"

text \<open>
  The constants the schema file imports: \<open>CLOUD_DEFAULT_REPO\<close>,
  \<open>Object.values(ROLLOVER_FORM_PATHS)\<close> and the table \<open>defaultIndexPriority\<close>.
  Their values are not part of the file, so the schema is built over any values of them.
\<close>

record constants =
  CLOUD_DEFAULT_REPO :: string
  rolloverFormPaths :: "string list"
  defaultIndexPriority :: "PhaseWithDownsample \<Rightarrow> defval"

definition maxNumSegmentsField :: fieldConfig where
  "maxNumSegmentsField = noConfig \<lparr>
     label := Some (I18nTexts ''editPolicy.maxNumSegmentsFieldLabel''),
     validations := Some
       [EmptyField (Translate
          ''xpack.indexLifecycleMgmt.editPolicy.forcemerge.numberOfSegmentsRequiredError''
          ''A value for number of segments is required.''),
        IfExistsNumberGreaterThanZero],
     serializer := Some StringToNumber \<rparr>"

definition searchableSnapshotFields :: schema where
  "searchableSnapshotFields = Group
     [(''snapshot_repository'', Field (noConfig \<lparr>
         label := Some (I18nTexts ''editPolicy.searchableSnapshotsRepoFieldLabel''),
         validations := Some
           [EmptyField (I18nTexts ''editPolicy.errors.searchableSnapshotRepoRequired'')],
         helpText := Some (Translate
           ''xpack.indexLifecycleMgmt.editPolicy.searchableSnapshot.repositoryHelpText''
           ''Each phase uses the same snapshot repository.'') \<rparr>)),
      (''storage'', Field (noConfig \<lparr>
         label := Some (Translate
           ''xpack.indexLifecycleMgmt.editPolicy.searchableSnapshot.storageLabel''
           ''Storage''),
         helpText := Some (Translate
           ''xpack.indexLifecycleMgmt.editPolicy.searchableSnapshot.storageHelpText''
           ''Type of snapshot mounted for the searchable snapshot. This is an advanced option. Only change it if you know what you're doing.'') \<rparr>))]"

definition numberOfReplicasField :: fieldConfig where
  "numberOfReplicasField = noConfig \<lparr>
     label := Some (I18nTexts ''editPolicy.numberOfReplicasLabel''),
     validations := Some
       [EmptyField (I18nTexts ''editPolicy.errors.numberRequired''),
        IfExistsNumberNonNegative],
     serializer := Some StringToNumber \<rparr>"

definition numberOfShardsField :: fieldConfig where
  "numberOfShardsField = noConfig \<lparr>
     label := Some (I18nTexts ''editPolicy.shrinkNumberOfShardsLabel''),
     defaultValue := Some (DNumber 1),
     validations := Some
       [EmptyField (I18nTexts ''editPolicy.errors.numberRequired''),
        NumberGreaterThanField (I18nTexts ''editPolicy.errors.numberGreatThan0Required'') 0],
     serializer := Some StringToNumber \<rparr>"

definition shardSizeField :: fieldConfig where
  "shardSizeField = noConfig \<lparr>
     label := Some (I18nTexts ''editPolicy.maxPrimaryShardSizeLabel''),
     validations := Some
       [EmptyField (I18nTexts ''editPolicy.errors.numberRequired''),
        NumberGreaterThanField (I18nTexts ''editPolicy.errors.numberGreatThan0Required'') 0],
     serializer := Some StringToNumber \<rparr>"

definition allowWriteAfterShrinkField :: fieldConfig where
  "allowWriteAfterShrinkField = noConfig \<lparr>
     label := Some (I18nTexts ''editPolicy.allowWriteAfterShrinkLabel''),
     defaultValue := Some (DBool False) \<rparr>"

definition getPriorityField :: "constants \<Rightarrow> PhaseWithDownsample \<Rightarrow> fieldConfig" where
  "getPriorityField c phase = noConfig \<lparr>
     defaultValue := Some (defaultIndexPriority c phase),
     label := Some (I18nTexts ''editPolicy.indexPriorityFieldLabel''),
     validations := Some
       [EmptyField (I18nTexts ''editPolicy.errors.numberRequired''),
        IfExistsNumberNonNegative],
     serializer := Some StringToNumber \<rparr>"

text \<open>
  \<open>getMinAgeField(phase, defaultValue?)\<close>: the second argument is optional, and the
  descriptor's \<open>defaultValue\<close> is whatever was passed.
\<close>

definition getMinAgeField :: "PhaseWithTiming \<Rightarrow> string option \<Rightarrow> fieldConfig" where
  "getMinAgeField phase dv = noConfig \<lparr>
     defaultValue := map_option DString dv,
     fieldsToValidateOnChange := Some [],
     validations := Some
       [EmptyField (I18nTexts ''editPolicy.errors.numberRequired''),
        IfExistsNumberNonNegative,
        IsInteger (I18nTexts ''editPolicy.errors.integerRequired''),
        MinAgeGreaterThanPreviousPhase phase] \<rparr>"

subsection \<open>Fields to validate when a downsample field changes\<close>

text \<open>
  \<open>Array.prototype.indexOf\<close> gives \<open>-1\<close> for an absent element, and
  \<open>Array.prototype.slice(start)\<close> counts a negative start from the end and clamps
  the start to the array.
\<close>

fun indexOf :: "'a list \<Rightarrow> 'a \<Rightarrow> int" where
  "indexOf [] x = -1"
| "indexOf (y # ys) x =
     (if y = x then 0 else (let i = indexOf ys x in if i < 0 then -1 else i + 1))"

definition slice :: "'a list \<Rightarrow> int \<Rightarrow> 'a list" where
  "slice xs start =
     (let n = int (length xs);
          k = (if start < 0 then max (n + start) 0 else min start n)
      in drop (nat k) xs)"

definition allPhases :: "PhaseWithDownsample list" where
  "allPhases = [DS_hot, DS_warm, DS_cold]"

definition getIntervalSizePath :: "PhaseWithDownsample \<Rightarrow> string" where
  "getIntervalSizePath currentPhase =
     ''_meta.'' @ downsamplePhaseName currentPhase @ ''.downsample.fixedIntervalSize''"

definition omitPreviousPhases :: "bool \<Rightarrow> PhaseWithDownsample \<Rightarrow> PhaseWithDownsample list" where
  "omitPreviousPhases includeCurrentPhase currentPhase =
     slice allPhases (indexOf allPhases currentPhase + (if includeCurrentPhase then 0 else 1))"

definition getDownsampleFieldsToValidateOnChange :: "PhaseWithDownsample \<Rightarrow> bool \<Rightarrow> string list" where
  "getDownsampleFieldsToValidateOnChange p includeCurrentPhase =
     map getIntervalSizePath (omitPreviousPhases includeCurrentPhase p)"

definition getDownsampleSchema :: "PhaseWithDownsample \<Rightarrow> schema" where
  "getDownsampleSchema phase = Group
     [(''enabled'', Field (noConfig \<lparr>
         defaultValue := Some (DBool False),
         label := Some (I18nTexts ''editPolicy.downsampleEnabledFieldLabel''),
         fieldsToValidateOnChange := Some (getDownsampleFieldsToValidateOnChange phase False) \<rparr>)),
      (''fixedIntervalSize'', Field (noConfig \<lparr>
         label := Some (I18nTexts ''editPolicy.downsampleIntervalFieldLabel''),
         fieldsToValidateOnChange := Some (getDownsampleFieldsToValidateOnChange phase True),
         validations := Some
           [EmptyField (I18nTexts ''editPolicy.errors.numberRequired''),
            IfExistsNumberGreaterThanZero,
            IsInteger (I18nTexts ''editPolicy.errors.integerRequired''),
            DownsampleIntervalMultipleOfPreviousOne phase] \<rparr>)),
      (''fixedIntervalUnits'', Field (noConfig \<lparr>
         defaultValue := Some (DString ''d''),
         fieldsToValidateOnChange := Some (getDownsampleFieldsToValidateOnChange phase True) \<rparr>))]"

subsection \<open>The schema\<close>

definition getSchema :: "constants \<Rightarrow> bool \<Rightarrow> schema" where
  "getSchema c isCloudEnabled = Group
   [(''_meta'', Group
     [(''hot'', Group
       [(''isUsingDefaultRollover'', Field (noConfig \<lparr>
           defaultValue := Some (DBool True),
           label := Some (Translate ''xpack.indexLifecycleMgmt.hotPhase.isUsingDefaultRollover''
             ''Use recommended defaults'') \<rparr>)),
        (''customRollover'', Group
          [(''enabled'', Field (noConfig \<lparr>
              defaultValue := Some (DBool True),
              label := Some (Translate ''xpack.indexLifecycleMgmt.hotPhase.enableRolloverLabel''
                ''Enable rollover'') \<rparr>)),
           (''maxStorageSizeUnit'', Field (noConfig \<lparr> defaultValue := Some (DString ''gb'') \<rparr>)),
           (''maxPrimaryShardSizeUnit'', Field (noConfig \<lparr> defaultValue := Some (DString ''gb'') \<rparr>)),
           (''maxAgeUnit'', Field (noConfig \<lparr> defaultValue := Some (DString ''d'') \<rparr>))]),
        (''bestCompression'', Field (noConfig \<lparr>
           label := Some (I18nTexts ''editPolicy.bestCompressionFieldLabel'') \<rparr>)),
        (''readonlyEnabled'', Field (noConfig \<lparr>
           defaultValue := Some (DBool False),
           label := Some (I18nTexts ''editPolicy.readonlyEnabledFieldLabel'') \<rparr>)),
        (''shrink'', Group
          [(''isUsingShardSize'', Field (noConfig \<lparr> defaultValue := Some (DBool False) \<rparr>)),
           (''maxPrimaryShardSizeUnits'', Field (noConfig \<lparr> defaultValue := Some (DString ''gb'') \<rparr>))]),
        (''downsample'', getDownsampleSchema DS_hot)]),
      (''warm'', Group
       [(''enabled'', Field (noConfig \<lparr>
           defaultValue := Some (DBool False),
           label := Some (Translate
             ''xpack.indexLifecycleMgmt.editPolicy.warmPhase.activateWarmPhaseSwitchLabel''
             ''Activate warm phase'') \<rparr>)),
        (''minAgeUnit'', Field (noConfig \<lparr> defaultValue := Some (DString ''d'') \<rparr>)),
        (''minAgeToMilliSeconds'', Field (noConfig \<lparr>
           defaultValue := Some (DNumber (- 1)),
           fieldsToValidateOnChange := Some
             [''phases.warm.min_age'',
              ''phases.cold.min_age'',
              ''phases.frozen.min_age'',
              ''phases.delete.min_age''] \<rparr>)),
        (''bestCompression'', Field (noConfig \<lparr>
           label := Some (I18nTexts ''editPolicy.bestCompressionFieldLabel'') \<rparr>)),
        (''dataTierAllocationType'', Field (noConfig \<lparr>
           label := Some (I18nTexts ''editPolicy.allocationTypeOptionsFieldLabel'') \<rparr>)),
        (''allocationNodeAttribute'', Field (noConfig \<lparr>
           label := Some (I18nTexts ''editPolicy.allocationNodeAttributeFieldLabel'') \<rparr>)),
        (''readonlyEnabled'', Field (noConfig \<lparr>
           defaultValue := Some (DBool False),
           label := Some (I18nTexts ''editPolicy.readonlyEnabledFieldLabel'') \<rparr>)),
        (''shrink'', Group
          [(''isUsingShardSize'', Field (noConfig \<lparr> defaultValue := Some (DBool False) \<rparr>)),
           (''maxPrimaryShardSizeUnits'', Field (noConfig \<lparr> defaultValue := Some (DString ''gb'') \<rparr>))]),
        (''downsample'', getDownsampleSchema DS_warm)]),
      (''cold'', Group
       [(''enabled'', Field (noConfig \<lparr>
           defaultValue := Some (DBool False),
           label := Some (Translate
             ''xpack.indexLifecycleMgmt.editPolicy.coldPhase.activateColdPhaseSwitchLabel''
             ''Activate cold phase'') \<rparr>)),
        (''readonlyEnabled'', Field (noConfig \<lparr>
           defaultValue := Some (DBool False),
           label := Some (I18nTexts ''editPolicy.readonlyEnabledFieldLabel'') \<rparr>)),
        (''minAgeUnit'', Field (noConfig \<lparr> defaultValue := Some (DString ''d'') \<rparr>)),
        (''minAgeToMilliSeconds'', Field (noConfig \<lparr>
           defaultValue := Some (DNumber (- 1)),
           fieldsToValidateOnChange := Some
             [''phases.cold.min_age'',
              ''phases.frozen.min_age'',
              ''phases.delete.min_age''] \<rparr>)),
        (''dataTierAllocationType'', Field (noConfig \<lparr>
           label := Some (I18nTexts ''editPolicy.allocationTypeOptionsFieldLabel'') \<rparr>)),
        (''allocationNodeAttribute'', Field (noConfig \<lparr>
           label := Some (I18nTexts ''editPolicy.allocationNodeAttributeFieldLabel'') \<rparr>)),
        (''downsample'', getDownsampleSchema DS_cold)]),
      (''frozen'', Group
       [(''enabled'', Field (noConfig \<lparr>
           defaultValue := Some (DBool False),
           label := Some (Translate
             ''xpack.indexLifecycleMgmt.editPolicy.frozenPhase.activateFrozenPhaseSwitchLabel''
             ''Activate frozen phase'') \<rparr>)),
        (''minAgeUnit'', Field (noConfig \<lparr> defaultValue := Some (DString ''d'') \<rparr>)),
        (''minAgeToMilliSeconds'', Field (noConfig \<lparr>
           defaultValue := Some (DNumber (- 1)),
           fieldsToValidateOnChange := Some
             [''phases.frozen.min_age'', ''phases.delete.min_age''] \<rparr>)),
        (''dataTierAllocationType'', Field (noConfig \<lparr>
           label := Some (I18nTexts ''editPolicy.allocationTypeOptionsFieldLabel'') \<rparr>)),
        (''allocationNodeAttribute'', Field (noConfig \<lparr>
           label := Some (I18nTexts ''editPolicy.allocationNodeAttributeFieldLabel'') \<rparr>))]),
      (''delete'', Group
       [(''enabled'', Field (noConfig \<lparr>
           defaultValue := Some (DBool False),
           label := Some (Translate
             ''xpack.indexLifecycleMgmt.editPolicy.deletePhase.activateWarmPhaseSwitchLabel''
             ''Activate delete phase'') \<rparr>)),
        (''minAgeUnit'', Field (noConfig \<lparr> defaultValue := Some (DString ''d'') \<rparr>)),
        (''minAgeToMilliSeconds'', Field (noConfig \<lparr>
           defaultValue := Some (DNumber (- 1)),
           fieldsToValidateOnChange := Some [''phases.delete.min_age''] \<rparr>))]),
      (''searchableSnapshot'', Group
       [(''repository'', Field (noConfig \<lparr>
           defaultValue := Some (DString (if isCloudEnabled then CLOUD_DEFAULT_REPO c else '''')) \<rparr>))])]),
    (''phases'', Group
     [(''hot'', Group
       [(''actions'', Group
         [(''rollover'', Group
           [(''max_age'', Field (noConfig \<lparr>
               label := Some (I18nTexts ''editPolicy.maxAgeLabel''),
               validations := Some
                 [RolloverThresholdsValidator,
                  IfExistsNumberGreaterThanZero,
                  IsInteger (I18nTexts ''editPolicy.errors.integerRequired'')],
               fieldsToValidateOnChange := Some (rolloverFormPaths c) \<rparr>)),
            (''max_docs'', Field (noConfig \<lparr>
               label := Some (I18nTexts ''editPolicy.maxDocsLabel''),
               validations := Some
                 [RolloverThresholdsValidator,
                  IfExistsNumberGreaterThanZero,
                  IsInteger (I18nTexts ''editPolicy.errors.integerRequired'')],
               serializer := Some StringToNumber,
               fieldsToValidateOnChange := Some (rolloverFormPaths c) \<rparr>)),
            (''max_primary_shard_size'', Field (noConfig \<lparr>
               label := Some (I18nTexts ''editPolicy.maxPrimaryShardSizeLabel''),
               validations := Some
                 [RolloverThresholdsValidator,
                  IfExistsNumberGreaterThanZero],
               fieldsToValidateOnChange := Some (rolloverFormPaths c) \<rparr>)),
            (''max_primary_shard_docs'', Field (noConfig \<lparr>
               label := Some (I18nTexts ''editPolicy.maxPrimaryShardDocsLabel''),
               validations := Some
                 [RolloverThresholdsValidator,
                  IfExistsNumberGreaterThanZero,
                  IsInteger (I18nTexts ''editPolicy.errors.integerRequired'')],
               serializer := Some StringToNumber,
               fieldsToValidateOnChange := Some (rolloverFormPaths c) \<rparr>)),
            (''max_size'', Field (noConfig \<lparr>
               label := Some (I18nTexts ''editPolicy.maxSizeLabel''),
               validations := Some
                 [RolloverThresholdsValidator,
                  IfExistsNumberGreaterThanZero],
               fieldsToValidateOnChange := Some (rolloverFormPaths c) \<rparr>))]),
          (''forcemerge'', Group
           [(''max_num_segments'', Field maxNumSegmentsField)]),
          (''shrink'', Group
           [(''number_of_shards'', Field numberOfShardsField),
            (''max_primary_shard_size'', Field shardSizeField),
            (''allow_write_after_shrink'', Field allowWriteAfterShrinkField)]),
          (''set_priority'', Group
           [(''priority'', Field (getPriorityField c DS_hot))]),
          (''searchable_snapshot'', searchableSnapshotFields)])]),
      (''warm'', Group
       [(''min_age'', Field (getMinAgeField TM_warm None)),
        (''actions'', Group
         [(''allocate'', Group
           [(''number_of_replicas'', Field numberOfReplicasField)]),
          (''shrink'', Group
           [(''number_of_shards'', Field numberOfShardsField),
            (''max_primary_shard_size'', Field shardSizeField),
            (''allow_write_after_shrink'', Field allowWriteAfterShrinkField)]),
          (''forcemerge'', Group
           [(''max_num_segments'', Field maxNumSegmentsField)]),
          (''set_priority'', Group
           [(''priority'', Field (getPriorityField c DS_warm))])])]),
      (''cold'', Group
       [(''min_age'', Field (getMinAgeField TM_cold None)),
        (''actions'', Group
         [(''allocate'', Group
           [(''number_of_replicas'', Field numberOfReplicasField)]),
          (''set_priority'', Group
           [(''priority'', Field (getPriorityField c DS_cold))]),
          (''searchable_snapshot'', searchableSnapshotFields)])]),
      (''frozen'', Group
       [(''min_age'', Field (getMinAgeField TM_frozen None)),
        (''actions'', Group
         [(''searchable_snapshot'', searchableSnapshotFields)])]),
      (''delete'', Group
       [(''min_age'', Field (getMinAgeField TM_delete (Some ''365''))),
        (''actions'', Group
         [(''wait_for_snapshot'', Group
           [(''policy'', Field (noConfig \<lparr>
               label := Some (Translate
                 ''xpack.indexLifecycleMgmt.editPolicy.waitForSnapshot.snapshotPolicyFieldLabel''
                 ''Policy name (optional)'') \<rparr>))]),
          (''delete'', Group
           [(''delete_searchable_snapshot'', Field (noConfig \<lparr>
               label := Some (Translate
                 ''xpack.indexLifecycleMgmt.editPolicy.deleteSearchableSnapshotFieldLabel''
                 ''Delete searchable snapshot''),
               defaultValue := Some (DBool True) \<rparr>))])])])])]"

subsection \<open>Reading the schema\<close>

text \<open>
  The descriptor a path leads to: a path is the list of keys from the root; it yields a
  descriptor only if it ends exactly at a leaf.
\<close>

fun fieldAt :: "schema \<Rightarrow> string list \<Rightarrow> fieldConfig option" where
  "fieldAt (Field f) [] = Some f"
| "fieldAt (Group kvs) [] = None"
| "fieldAt (Field f) (k # ks) = None"
| "fieldAt (Group kvs) (k # ks) =
     (case map_of kvs k of None \<Rightarrow> None | Some s \<Rightarrow> fieldAt s ks)"

definition repositoryPath :: "string list" where
  "repositoryPath = [''_meta'', ''searchableSnapshot'', ''repository'']"

text \<open>
  The order of the phases in a policy, and the phases from a given one on: what
  "later phase" means in the statements below.
\<close>

fun downsampleOrder :: "PhaseWithDownsample \<Rightarrow> nat" where
  "downsampleOrder DS_hot = 0"
| "downsampleOrder DS_warm = 1"
| "downsampleOrder DS_cold = 2"

fun timingOrder :: "PhaseWithTiming \<Rightarrow> nat" where
  "timingOrder TM_warm = 0"
| "timingOrder TM_cold = 1"
| "timingOrder TM_frozen = 2"
| "timingOrder TM_delete = 3"

definition downsamplePhasesFrom :: "PhaseWithDownsample \<Rightarrow> PhaseWithDownsample list" where
  "downsamplePhasesFrom p =
     filter (\<lambda>q. downsampleOrder p \<le> downsampleOrder q) [DS_hot, DS_warm, DS_cold]"

definition downsamplePhasesAfter :: "PhaseWithDownsample \<Rightarrow> PhaseWithDownsample list" where
  "downsamplePhasesAfter p =
     filter (\<lambda>q. downsampleOrder p < downsampleOrder q) [DS_hot, DS_warm, DS_cold]"

definition timingPhasesFrom :: "PhaseWithTiming \<Rightarrow> PhaseWithTiming list" where
  "timingPhasesFrom p =
     filter (\<lambda>q. timingOrder p \<le> timingOrder q) [TM_warm, TM_cold, TM_frozen, TM_delete]"

definition intervalSizePathOf :: "PhaseWithDownsample \<Rightarrow> string" where
  "intervalSizePathOf q =
     ''_meta.'' @ downsamplePhaseName q @ ''.downsample.fixedIntervalSize''"

definition minAgePathOf :: "PhaseWithTiming \<Rightarrow> string" where
  "minAgePathOf q = ''phases.'' @ timingPhaseName q @ ''.min_age''"

section \<open>Alerts REST client\<close>

text \<open>
  A promise settles to a value or to a rejection. The HTTP service of
  \<open>KibanaServices.get().http\<close> is what the transport answers to a call; every
  function of the client returns the calls it made, in order, with the promise it
  returns.
\<close>

datatype error = Error string

type_synonym 'a promise = "error + 'a"

datatype json =
    JNull
  | JBool bool
  | JNumber int
  | JString string
  | JArray "json list"
  | JObject "(string \<times> json) list"

text \<open>
  \<open>JSON.stringify(v)\<close>: the JSON text of the value \<open>v\<close>. In the options
  of a call, \<open>httpMethod\<close> is the key \<open>method\<close> of the source.
\<close>

datatype jsonText = JSON_stringify json

type_synonym AbortSignal = nat

record fetchOptions =
  version :: "string option"
  httpMethod :: "string option"
  body :: "jsonText option"
  signal :: "AbortSignal option"
  query :: "(string \<times> json) list option"

definition noOptions :: fetchOptions where
  "noOptions = \<lparr> version = None, httpMethod = None, body = None, signal = None, query = None \<rparr>"

record httpCall =
  url :: string
  options :: fetchOptions

type_synonym http = "httpCall \<Rightarrow> json promise"

definition fetch :: "http \<Rightarrow> string \<Rightarrow> fetchOptions \<Rightarrow> httpCall list \<times> json promise" where
  "fetch h u opts = ([\<lparr> url = u, options = opts \<rparr>], h \<lparr> url = u, options = opts \<rparr>)"

text \<open>The argument object of \<open>isolateHost\<close> and \<open>unIsolateHost\<close>.\<close>

record isolationRequest =
  endpoint_ids :: "string list"
  comment :: string
  case_ids :: "string list option"
  agent_type :: string

text \<open>
  The imported URL constants and URL helpers; their values are not part of the file.
  \<open>isolateHostCall\<close> and \<open>unIsolateHostCall\<close> are the method, path and body of
  the collaborator's request (see \<open>isolateHost\<close> below).
\<close>

record apiConstants =
  DETECTION_ENGINE_QUERY_SIGNALS_URL :: string
  DETECTION_ENGINE_SIGNALS_STATUS_URL :: string
  DETECTION_ENGINE_INDEX_URL :: string
  DETECTION_ENGINE_PRIVILEGES_URL :: string
  ALERTS_AS_DATA_FIND_URL :: string
  DETECTION_ENGINE_ALERTS_INDEX_URL :: string
  HOST_METADATA_GET_ROUTE :: string
  getCasesFromAlertsUrl :: "string \<Rightarrow> string"
  resolvePathVariables :: "string \<Rightarrow> (string \<times> string) list \<Rightarrow> string"
  isolateHostCall :: "isolationRequest \<Rightarrow> httpCall"
  unIsolateHostCall :: "isolationRequest \<Rightarrow> httpCall"

definition fetchQueryAlerts ::
  "apiConstants \<Rightarrow> http \<Rightarrow> json \<Rightarrow> AbortSignal option \<Rightarrow> httpCall list \<times> json promise" where
  "fetchQueryAlerts k h queryArg signalArg =
     fetch h (DETECTION_ENGINE_QUERY_SIGNALS_URL k) (noOptions \<lparr>
       version := Some ''2023-10-31'',
       httpMethod := Some ''POST'',
       body := Some (JSON_stringify queryArg),
       signal := signalArg \<rparr>)"

definition fetchQueryRuleRegistryAlerts ::
  "apiConstants \<Rightarrow> http \<Rightarrow> json \<Rightarrow> AbortSignal option \<Rightarrow> httpCall list \<times> json promise" where
  "fetchQueryRuleRegistryAlerts k h queryArg signalArg =
     fetch h (ALERTS_AS_DATA_FIND_URL k) (noOptions \<lparr>
       httpMethod := Some ''POST'',
       body := Some (JSON_stringify queryArg),
       signal := signalArg \<rparr>)"

definition updateAlertStatusByQuery ::
  "apiConstants \<Rightarrow> http \<Rightarrow> json \<Rightarrow> string \<Rightarrow> AbortSignal option
     \<Rightarrow> httpCall list \<times> json promise" where
  "updateAlertStatusByQuery k h queryArg status signalArg =
     fetch h (DETECTION_ENGINE_SIGNALS_STATUS_URL k) (noOptions \<lparr>
       version := Some ''2023-10-31'',
       httpMethod := Some ''POST'',
       body := Some (JSON_stringify (JObject
         [(''conflicts'', JString ''proceed''),
          (''status'', JString status),
          (''query'', queryArg)])),
       signal := signalArg \<rparr>)"

definition updateAlertStatusByIds ::
  "apiConstants \<Rightarrow> http \<Rightarrow> string list \<Rightarrow> string \<Rightarrow> AbortSignal option
     \<Rightarrow> httpCall list \<times> json promise" where
  "updateAlertStatusByIds k h signalIds status signalArg =
     fetch h (DETECTION_ENGINE_SIGNALS_STATUS_URL k) (noOptions \<lparr>
       version := Some ''2023-10-31'',
       httpMethod := Some ''POST'',
       body := Some (JSON_stringify (JObject
         [(''status'', JString status),
          (''signal_ids'', JArray (map JString signalIds))])),
       signal := signalArg \<rparr>)"

definition getSignalIndex ::
  "apiConstants \<Rightarrow> http \<Rightarrow> AbortSignal option \<Rightarrow> httpCall list \<times> json promise" where
  "getSignalIndex k h signalArg =
     fetch h (DETECTION_ENGINE_INDEX_URL k) (noOptions \<lparr>
       version := Some ''2023-10-31'',
       httpMethod := Some ''GET'',
       signal := signalArg \<rparr>)"

definition checkSignalIndex ::
  "apiConstants \<Rightarrow> http \<Rightarrow> AbortSignal option \<Rightarrow> httpCall list \<times> json promise" where
  "checkSignalIndex k h signalArg =
     fetch h (DETECTION_ENGINE_ALERTS_INDEX_URL k) (noOptions \<lparr>
       version := Some ''1'',
       httpMethod := Some ''GET'',
       signal := signalArg \<rparr>)"

definition getUserPrivilege ::
  "apiConstants \<Rightarrow> http \<Rightarrow> AbortSignal option \<Rightarrow> httpCall list \<times> json promise" where
  "getUserPrivilege k h signalArg =
     fetch h (DETECTION_ENGINE_PRIVILEGES_URL k) (noOptions \<lparr>
       version := Some ''2023-10-31'',
       httpMethod := Some ''GET'',
       signal := signalArg \<rparr>)"

definition createSignalIndex ::
  "apiConstants \<Rightarrow> http \<Rightarrow> AbortSignal option \<Rightarrow> httpCall list \<times> json promise" where
  "createSignalIndex k h signalArg =
     fetch h (DETECTION_ENGINE_INDEX_URL k) (noOptions \<lparr>
       version := Some ''2023-10-31'',
       httpMethod := Some ''POST'',
       signal := signalArg \<rparr>)"

text \<open>
  Modelled from the spec: \<open>isolateHost\<close> and \<open>unIsolateHost\<close> of
  \<open>common/lib/endpoint/endpoint_isolation\<close> are not among the sources. The spec lists
  "host-isolation / un-isolation actions, delegated to a separate collaborator" among
  the REST endpoints consumed, each function performing "exactly one HTTP call with a
  fixed method/path/body shape" and returning "the parsed response or propagates the
  rejection". The method, path and body are not given; they are taken from
  \<open>isolateHostCall\<close> and \<open>unIsolateHostCall\<close>.
\<close>

definition isolateHost ::
  "apiConstants \<Rightarrow> http \<Rightarrow> isolationRequest \<Rightarrow> httpCall list \<times> json promise" where
  "isolateHost k h params = ([isolateHostCall k params], h (isolateHostCall k params))"

definition unIsolateHost ::
  "apiConstants \<Rightarrow> http \<Rightarrow> isolationRequest \<Rightarrow> httpCall list \<times> json promise" where
  "unIsolateHost k h params = ([unIsolateHostCall k params], h (unIsolateHostCall k params))"

text \<open>
  \<open>comment = ''\<close> in the parameter list: an absent comment is the empty string.
\<close>

definition createHostIsolation ::
  "apiConstants \<Rightarrow> http \<Rightarrow> string \<Rightarrow> string option \<Rightarrow> string list option \<Rightarrow> string
     \<Rightarrow> httpCall list \<times> json promise" where
  "createHostIsolation k h endpointId commentArg caseIds agentType =
     isolateHost k h \<lparr>
       endpoint_ids = [endpointId],
       comment = (case commentArg of None \<Rightarrow> '''' | Some s \<Rightarrow> s),
       case_ids = caseIds,
       agent_type = agentType \<rparr>"

definition createHostUnIsolation ::
  "apiConstants \<Rightarrow> http \<Rightarrow> string \<Rightarrow> string option \<Rightarrow> string list option \<Rightarrow> string
     \<Rightarrow> httpCall list \<times> json promise" where
  "createHostUnIsolation k h endpointId commentArg caseIds agentType =
     unIsolateHost k h \<lparr>
       endpoint_ids = [endpointId],
       comment = (case commentArg of None \<Rightarrow> '''' | Some s \<Rightarrow> s),
       case_ids = caseIds,
       agent_type = agentType \<rparr>"

text \<open>
  \<open>query: { ...(owner.length > 0 ? { owner } : {}) }\<close>: the entries of the object
  that is spread, in an otherwise empty object.
\<close>

definition getCaseIdsFromAlertId ::
  "apiConstants \<Rightarrow> http \<Rightarrow> string \<Rightarrow> string list \<Rightarrow> httpCall list \<times> json promise" where
  "getCaseIdsFromAlertId k h alertId owner =
     fetch h (getCasesFromAlertsUrl k alertId) (noOptions \<lparr>
       httpMethod := Some ''get'',
       query := Some ([] @
         (if length owner > 0 then [(''owner'', JArray (map JString owner))] else [])) \<rparr>)"

definition getHostMetadata ::
  "apiConstants \<Rightarrow> http \<Rightarrow> string \<Rightarrow> AbortSignal option \<Rightarrow> httpCall list \<times> json promise" where
  "getHostMetadata k h agentId signalArg =
     fetch h (resolvePathVariables k (HOST_METADATA_GET_ROUTE k) [(''id'', agentId)]) (noOptions \<lparr>
       httpMethod := Some ''GET'',
       signal := signalArg,
       version := Some ''2023-10-31'' \<rparr>)"

text \<open>Whether a call carries a query parameter of a given name.\<close>

definition hasQueryParam :: "string \<Rightarrow> httpCall \<Rightarrow> bool" where
  "hasQueryParam name c =
     (case query (options c) of None \<Rightarrow> False | Some q \<Rightarrow> map_of q name \<noteq> None)"

section \<open>Threat-match input component\<close>

text \<open>
  Function values (callbacks) are known by their identity. The component is modelled by
  its hooks: the state of \<open>useState\<close>, the body and the dependency list of
  \<open>useEffect\<close>, and the handler of \<open>useCallback\<close>; what a hook calls is returned
  as a list of invocations. The props that only flow into the rendered children
  (index patterns, loading flag, reset button) are left out.
\<close>

type_synonym callback = nat

record 'e FieldHook =
  fieldValue :: "'e list"
  setValue :: callback

record 'e ThreatMatchInputProps =
  threatMapping :: "'e FieldHook"
  onValidityChange :: "callback option"

datatype 'e invocation =
    Call_onValidityChange callback bool
  | Call_setValue callback "'e list"

text \<open>
  \<open>getFieldValidityAndErrorMessage\<close> is imported from the form library; it is a
  parameter \<open>gv\<close>, giving \<open>isInvalid\<close> and \<open>errorMessage\<close> for a field hook.
\<close>

type_synonym 'e fieldValidity = "'e FieldHook \<Rightarrow> bool \<times> string option"

record componentState =
  isThreatIndexPatternValid :: bool

text \<open>\<open>useState(false)\<close>\<close>

definition initialState :: componentState where
  "initialState = \<lparr> isThreatIndexPatternValid = False \<rparr>"

definition setIsThreatIndexPatternValid :: "bool \<Rightarrow> componentState \<Rightarrow> componentState" where
  "setIsThreatIndexPatternValid b st = st \<lparr> isThreatIndexPatternValid := b \<rparr>"

text \<open>The body of the effect, for the props and state of one render.\<close>

definition validityEffect ::
  "'e fieldValidity \<Rightarrow> 'e ThreatMatchInputProps \<Rightarrow> componentState \<Rightarrow> 'e invocation list" where
  "validityEffect gv props st =
     (let isThreatMappingInvalid = fst (gv (threatMapping props)) in
      case onValidityChange props of
        None \<Rightarrow> []
      | Some cb \<Rightarrow>
          [Call_onValidityChange cb (\<not> isThreatMappingInvalid \<and> isThreatIndexPatternValid st)])"

text \<open>\<open>[isThreatIndexPatternValid, isThreatMappingInvalid, onValidityChange]\<close>\<close>

definition effectDeps ::
  "'e fieldValidity \<Rightarrow> 'e ThreatMatchInputProps \<Rightarrow> componentState
     \<Rightarrow> bool \<times> bool \<times> callback option" where
  "effectDeps gv props st =
     (isThreatIndexPatternValid st, fst (gv (threatMapping props)), onValidityChange props)"

definition handleBuilderOnChange :: "'e ThreatMatchInputProps \<Rightarrow> 'e list \<Rightarrow> 'e invocation list" where
  "handleBuilderOnChange props entryItems =
     [Call_setValue (setValue (threatMapping props)) entryItems]"

text \<open>
  The hook runtime: an effect runs after the first render, and after a later render
  whose dependency list differs from that of the render before.
\<close>

record 'e mounted =
  currentProps :: "'e ThreatMatchInputProps"
  currentState :: componentState
  lastDeps :: "bool \<times> bool \<times> callback option"

datatype 'e event =
    QueryBarValidityChange bool
  | BuilderChange "'e list"
  | PropsChange "'e ThreatMatchInputProps"

definition mount ::
  "'e fieldValidity \<Rightarrow> 'e ThreatMatchInputProps \<Rightarrow> 'e mounted \<times> 'e invocation list" where
  "mount gv props =
     (\<lparr> currentProps = props, currentState = initialState,
        lastDeps = effectDeps gv props initialState \<rparr>,
      validityEffect gv props initialState)"

definition rerender ::
  "'e fieldValidity \<Rightarrow> 'e ThreatMatchInputProps \<Rightarrow> componentState \<Rightarrow> bool \<times> bool \<times> callback option
     \<Rightarrow> 'e mounted \<times> 'e invocation list" where
  "rerender gv props st deps =
     (\<lparr> currentProps = props, currentState = st, lastDeps = effectDeps gv props st \<rparr>,
      if effectDeps gv props st = deps then [] else validityEffect gv props st)"

fun dispatch ::
  "'e fieldValidity \<Rightarrow> 'e event \<Rightarrow> 'e mounted \<Rightarrow> 'e mounted \<times> 'e invocation list" where
  "dispatch gv (QueryBarValidityChange b) m =
     rerender gv (currentProps m) (setIsThreatIndexPatternValid b (currentState m)) (lastDeps m)"
| "dispatch gv (BuilderChange entryItems) m =
     (m, handleBuilderOnChange (currentProps m) entryItems)"
| "dispatch gv (PropsChange props) m =
     rerender gv props (currentState m) (lastDeps m)"

text \<open>
  The life of a mounted component: the first render, then the events in the order they
  arrive. It gives the component after the last event and every invocation made, in
  order.
\<close>

fun runEvents ::
  "'e fieldValidity \<Rightarrow> 'e event list \<Rightarrow> 'e mounted \<times> 'e invocation list
     \<Rightarrow> 'e mounted \<times> 'e invocation list" where
  "runEvents gv [] (m, calls) = (m, calls)"
| "runEvents gv (ev # evs) (m, calls) =
     runEvents gv evs (fst (dispatch gv ev m), calls @ snd (dispatch gv ev m))"

definition lifetime ::
  "'e fieldValidity \<Rightarrow> 'e ThreatMatchInputProps \<Rightarrow> 'e event list
     \<Rightarrow> 'e mounted \<times> 'e invocation list" where
  "lifetime gv props evs = runEvents gv evs (mount gv props)"

section \<open>Request-scoped APM event client\<close>

text \<open>
  \<open>getApmEventClient\<close> is an async function: it runs up to an \<open>await\<close>, and goes
  on when the awaited promise settles. Its run is modelled by the state of every promise
  it creates and by the order in which the pending lookups settle, which the
  environment chooses.
\<close>

datatype 'a promiseState = Unstarted | Pending | Fulfilled 'a | Rejected error

record coreContext =
  asCurrentUser :: nat
  uiSettingsGet :: "string \<Rightarrow> json promise"

text \<open>
  The argument of the function: what \<open>context.core\<close> and \<open>getApmIndices()\<close>
  settle to, \<open>params.query._inspect\<close> and the request.
\<close>

record resources =
  contextCore :: "coreContext promise"
  queryInspect :: bool
  getApmIndices :: "json promise"
  request :: nat

text \<open>The imported setting keys and the imported \<open>inspectableEsQueriesMap\<close>.\<close>

record apmConstants =
  SEARCH_INCLUDE_FROZEN :: string
  searchExcludedDataTiers :: string
  inspectableEsQueriesMapRef :: nat

record clientOptions =
  includeFrozen :: json
  excludedDataTiers :: json
  inspectableEsQueriesMap :: nat

text \<open>An \<open>APMEventClient\<close> is the configuration its constructor was given.\<close>

record APMEventClient =
  esClient :: nat
  debug :: bool
  clientRequest :: nat
  indices :: json
  clientOptions :: clientOptions

record apmRun =
  coreP :: "coreContext promiseState"
  indicesP :: "json promiseState"
  includeFrozenP :: "json promiseState"
  excludedDataTiersP :: "json promiseState"
  uiSettingsP :: "(json \<times> json) promiseState"
  clientP :: "APMEventClient promiseState"


fun isPending :: "'a promiseState \<Rightarrow> bool" where
  "isPending Pending = True"
| "isPending _ = False"

fun settled :: "'a promise \<Rightarrow> 'a promiseState" where
  "settled (Inl e) = Rejected e"
| "settled (Inr v) = Fulfilled v"


text \<open>
  The continuation of \<open>await Promise.all([...])\<close>: it rejects with the first rejection
  of the two promises, and once both are fulfilled the client is constructed.
\<close>

definition afterPromiseAll :: "apmConstants \<Rightarrow> resources \<Rightarrow> apmRun \<Rightarrow> apmRun" where
  "afterPromiseAll k r s =
     (if \<not> isPending (clientP s) then s
      else case (indicesP s, uiSettingsP s, coreP s) of
          (Rejected e, _, _) \<Rightarrow> s \<lparr> clientP := Rejected e \<rparr>
        | (_, Rejected e, _) \<Rightarrow> s \<lparr> clientP := Rejected e \<rparr>
        | (Fulfilled i, Fulfilled u, Fulfilled cc) \<Rightarrow>
            s \<lparr> clientP := Fulfilled \<lparr>
                  esClient = asCurrentUser cc,
                  debug = queryInspect r,
                  clientRequest = request r,
                  indices = i,
                  clientOptions = \<lparr>
                    includeFrozen = fst u,
                    excludedDataTiers = snd u,
                    inspectableEsQueriesMap = inspectableEsQueriesMapRef k \<rparr> \<rparr> \<rparr>
        | _ \<Rightarrow> s)"




section \<open>Notions used in the statements and proofs\<close>

text \<open>An outcome that consists of exactly one call and of what the transport answered to it.\<close>

definition performs :: "httpCall list \<times> json promise \<Rightarrow> http \<Rightarrow> httpCall \<Rightarrow> bool" where
  "performs outcome h c \<longleftrightarrow> outcome = ([c], h c)"









text \<open>
  The dependency list a mounted component remembers is the one of its last render.
\<close>

definition depsOfLastRender :: "'e fieldValidity \<Rightarrow> 'e mounted \<Rightarrow> bool" where
  "depsOfLastRender gv m \<longleftrightarrow> lastDeps m = effectDeps gv (currentProps m) (currentState m)"

text \<open>Concrete inputs, for the statements that are checked on an example.\<close>

definition exampleConstants :: constants where
  "exampleConstants = \<lparr> CLOUD_DEFAULT_REPO = ''found-snapshots'',
     rolloverFormPaths = [''phases.hot.actions.rollover.max_age''],
     defaultIndexPriority = (\<lambda>p. DString ''100'') \<rparr>"

definition exampleValidity :: "nat fieldValidity" where
  "exampleValidity f = (False, None)"

definition exampleProps :: "nat ThreatMatchInputProps" where
  "exampleProps = \<lparr> threatMapping = \<lparr> fieldValue = [], setValue = 1 \<rparr>,
     onValidityChange = Some 7 \<rparr>"





section \<open>Properties of the form schema\<close>

lemma getDownsampleFieldsToValidateOnChange_from:
  "getDownsampleFieldsToValidateOnChange p True = map intervalSizePathOf (downsamplePhasesFrom p)"
  by (cases p)
     (simp_all add: getDownsampleFieldsToValidateOnChange_def omitPreviousPhases_def slice_def
        allPhases_def getIntervalSizePath_def intervalSizePathOf_def downsamplePhasesFrom_def)

lemma getDownsampleFieldsToValidateOnChange_after:
  "getDownsampleFieldsToValidateOnChange p False = map intervalSizePathOf (downsamplePhasesAfter p)"
  by (cases p)
     (simp_all add: getDownsampleFieldsToValidateOnChange_def omitPreviousPhases_def slice_def
        allPhases_def getIntervalSizePath_def intervalSizePathOf_def downsamplePhasesAfter_def)

lemma fieldAt_downsample:
  "fieldAt (getSchema c cloud) (''_meta'' # downsamplePhaseName p # ''downsample'' # ks) =
   fieldAt (getDownsampleSchema p) ks"
  by (cases p) (simp_all add: getSchema_def)

lemma fieldAt_min_age:
  "fieldAt (getSchema c cloud) [''phases'', timingPhaseName p, ''min_age''] =
   Some (getMinAgeField p (if p = TM_delete then Some ''365'' else None))"
  by (cases p) (simp_all add: getSchema_def)

lemma fieldAt_repository:
  "fieldAt (getSchema c cloud) repositoryPath =
   Some (noConfig \<lparr> defaultValue :=
     Some (DString (if cloud then CLOUD_DEFAULT_REPO c else '''')) \<rparr>)"
  by (simp add: getSchema_def repositoryPath_def)

lemma fieldAt_elsewhere:
  assumes ne: "p \<noteq> repositoryPath"
  shows "fieldAt (getSchema c True) p = fieldAt (getSchema c False) p"
proof (cases p)
  case Nil
  then show ?thesis by (simp add: getSchema_def)
next
  case (Cons k ks)
  note p = this
  show ?thesis
  proof (cases "k = ''_meta''")
    case False
    then show ?thesis unfolding p getSchema_def by simp
  next
    case meta: True
    show ?thesis
    proof (cases ks)
      case Nil
      then show ?thesis unfolding p getSchema_def by simp
    next
      case (Cons k2 ks2)
      note ks = this
      show ?thesis
      proof (cases "k2 = ''searchableSnapshot''")
        case False
        then show ?thesis unfolding p ks getSchema_def by simp
      next
        case True
        with ne p ks meta have "ks2 \<noteq> [''repository'']"
          by (simp add: repositoryPath_def)
        then show ?thesis unfolding p ks getSchema_def using True meta
          by (cases ks2; cases "tl ks2") auto
      qed
    qed
  qed
qed

text \<open>
  C2. In the schema of \<open>getSchema\<close>, the \<open>min_age\<close> field of every phase with
  timing (warm, cold, frozen, delete) has the validators, in this order: required
  (\<open>emptyField\<close>), non-negative number, integer, and
  \<open>minAgeGreaterThanPreviousPhase\<close> of that phase; and the downsample
  \<open>fixedIntervalSize\<close> field of every phase with downsample (hot, warm, cold) has the
  validators, in this order: required, greater than zero, integer, and
  \<open>downsampleIntervalMultipleOfPreviousOne\<close> of that phase.
\<close>

theorem getSchema_validator_lists:
  "map_option validations
     (fieldAt (getSchema c cloud) [''phases'', timingPhaseName p, ''min_age'']) =
     Some (Some
       [EmptyField (I18nTexts ''editPolicy.errors.numberRequired''),
        IfExistsNumberNonNegative,
        IsInteger (I18nTexts ''editPolicy.errors.integerRequired''),
        MinAgeGreaterThanPreviousPhase p])
   \<and> map_option validations
     (fieldAt (getSchema c cloud)
        [''_meta'', downsamplePhaseName q, ''downsample'', ''fixedIntervalSize'']) =
     Some (Some
       [EmptyField (I18nTexts ''editPolicy.errors.numberRequired''),
        IfExistsNumberGreaterThanZero,
        IsInteger (I18nTexts ''editPolicy.errors.integerRequired''),
        DownsampleIntervalMultipleOfPreviousOne q])"
  unfolding fieldAt_downsample fieldAt_min_age
  by (simp add: getMinAgeField_def getDownsampleSchema_def noConfig_def)

text \<open>
  C5. The schemas of \<open>getSchema\<close> for the two values of \<open>isCloudEnabled\<close> have
  the same field descriptor at every path other than
  \<open>_meta.searchableSnapshot.repository\<close>; at that path they differ at most in
  \<open>defaultValue\<close>, which is the cloud default repository when \<open>isCloudEnabled\<close>
  is true and the empty string when it is false.
\<close>

theorem getSchema_cloud_frame:
  "(p \<noteq> repositoryPath \<longrightarrow> fieldAt (getSchema c True) p = fieldAt (getSchema c False) p)
   \<and> fieldAt (getSchema c False) repositoryPath =
       map_option (\<lambda>f. f \<lparr> defaultValue := Some (DString '''') \<rparr>)
         (fieldAt (getSchema c True) repositoryPath)
   \<and> map_option defaultValue (fieldAt (getSchema c True) repositoryPath) =
       Some (Some (DString (CLOUD_DEFAULT_REPO c)))
   \<and> map_option defaultValue (fieldAt (getSchema c False) repositoryPath) =
       Some (Some (DString ''''))"
  using fieldAt_elsewhere [of p c]
  by (simp add: fieldAt_repository)

theorem getSchema_cloud_frame_witness:
  "[''_meta'', ''hot'', ''readonlyEnabled''] \<noteq> repositoryPath
   \<and> fieldAt (getSchema exampleConstants True) [''_meta'', ''hot'', ''readonlyEnabled''] =
       fieldAt (getSchema exampleConstants False) [''_meta'', ''hot'', ''readonlyEnabled'']
   \<and> fieldAt (getSchema exampleConstants False) [''_meta'', ''hot'', ''readonlyEnabled''] =
       Some (noConfig \<lparr> defaultValue := Some (DBool False),
         label := Some (I18nTexts ''editPolicy.readonlyEnabledFieldLabel'') \<rparr>)"
proof -
  have ne: "[''_meta'', ''hot'', ''readonlyEnabled''] \<noteq> repositoryPath"
    by (simp add: repositoryPath_def)
  have v: "fieldAt (getSchema exampleConstants False) [''_meta'', ''hot'', ''readonlyEnabled''] =
       Some (noConfig \<lparr> defaultValue := Some (DBool False),
         label := Some (I18nTexts ''editPolicy.readonlyEnabledFieldLabel'') \<rparr>)"
    by (simp add: getSchema_def)
  from getSchema_cloud_frame [of "[''_meta'', ''hot'', ''readonlyEnabled'']" exampleConstants] ne v
  show ?thesis by simp
qed

text \<open>
  C6. For every phase \<open>p\<close> among hot, warm, cold, the downsample
  \<open>fixedIntervalSize\<close> and \<open>fixedIntervalUnits\<close> fields of \<open>p\<close> have as
  fields to validate on change exactly the \<open>_meta\<close> downsample
  \<open>fixedIntervalSize\<close> paths of \<open>p\<close> and of every later phase, in order; the
  downsample \<open>enabled\<close> field of \<open>p\<close> has those of the strictly later phases only.
\<close>

theorem downsample_fieldsToValidateOnChange:
  "map_option fieldsToValidateOnChange
     (fieldAt (getSchema c cloud)
        [''_meta'', downsamplePhaseName p, ''downsample'', ''fixedIntervalSize''])
     = Some (Some (map intervalSizePathOf (downsamplePhasesFrom p)))
   \<and> map_option fieldsToValidateOnChange
     (fieldAt (getSchema c cloud)
        [''_meta'', downsamplePhaseName p, ''downsample'', ''fixedIntervalUnits''])
     = Some (Some (map intervalSizePathOf (downsamplePhasesFrom p)))
   \<and> map_option fieldsToValidateOnChange
     (fieldAt (getSchema c cloud)
        [''_meta'', downsamplePhaseName p, ''downsample'', ''enabled''])
     = Some (Some (map intervalSizePathOf (downsamplePhasesAfter p)))"
  unfolding fieldAt_downsample
  by (simp add: getDownsampleSchema_def noConfig_def
        getDownsampleFieldsToValidateOnChange_from getDownsampleFieldsToValidateOnChange_after)

text \<open>
  C9. For every phase with timing (warm, cold, frozen, delete), the \<open>min_age\<close>
  descriptor of \<open>getMinAgeField\<close> has an empty list of fields to validate on change,
  also where it stands in the schema; the \<open>_meta\<close> field
  \<open>minAgeToMilliSeconds\<close> of the phase has as fields to validate on change exactly
  the \<open>min_age\<close> paths of its own phase and of every later phase.
\<close>

theorem minAge_fieldsToValidateOnChange:
  "fieldsToValidateOnChange (getMinAgeField p dv) = Some []
   \<and> map_option fieldsToValidateOnChange
       (fieldAt (getSchema c cloud) [''phases'', timingPhaseName p, ''min_age'']) = Some (Some [])
   \<and> map_option fieldsToValidateOnChange
       (fieldAt (getSchema c cloud) [''_meta'', timingPhaseName p, ''minAgeToMilliSeconds''])
       = Some (Some (map minAgePathOf (timingPhasesFrom p)))"
  by (cases p)
     (simp_all add: getSchema_def getMinAgeField_def noConfig_def minAgePathOf_def
        timingPhasesFrom_def)

section \<open>Properties of the alerts REST client\<close>

text \<open>
  C3. Every exported function of the alerts REST client performs exactly one HTTP call,
  with a method, path and body fixed by its inputs, and returns what the transport
  answers to that call: the parsed response, or its rejection. There is no second call,
  whatever the answer is. (For \<open>createHostIsolation\<close> and
  \<open>createHostUnIsolation\<close> the call is the one of the collaborator they delegate
  to.)
\<close>

theorem alerts_api_one_call_each:
  "performs (fetchQueryAlerts k h q sg) h
     \<lparr> url = DETECTION_ENGINE_QUERY_SIGNALS_URL k,
       options = \<lparr> version = Some ''2023-10-31'', httpMethod = Some ''POST'',
         body = Some (JSON_stringify q), signal = sg, query = None \<rparr> \<rparr>
   \<and> performs (fetchQueryRuleRegistryAlerts k h q sg) h
     \<lparr> url = ALERTS_AS_DATA_FIND_URL k,
       options = \<lparr> version = None, httpMethod = Some ''POST'',
         body = Some (JSON_stringify q), signal = sg, query = None \<rparr> \<rparr>
   \<and> performs (updateAlertStatusByQuery k h q st sg) h
     \<lparr> url = DETECTION_ENGINE_SIGNALS_STATUS_URL k,
       options = \<lparr> version = Some ''2023-10-31'', httpMethod = Some ''POST'',
         body = Some (JSON_stringify (JObject
           [(''conflicts'', JString ''proceed''), (''status'', JString st), (''query'', q)])),
         signal = sg, query = None \<rparr> \<rparr>
   \<and> performs (updateAlertStatusByIds k h ids st sg) h
     \<lparr> url = DETECTION_ENGINE_SIGNALS_STATUS_URL k,
       options = \<lparr> version = Some ''2023-10-31'', httpMethod = Some ''POST'',
         body = Some (JSON_stringify (JObject
           [(''status'', JString st), (''signal_ids'', JArray (map JString ids))])),
         signal = sg, query = None \<rparr> \<rparr>
   \<and> performs (getSignalIndex k h sg) h
     \<lparr> url = DETECTION_ENGINE_INDEX_URL k,
       options = \<lparr> version = Some ''2023-10-31'', httpMethod = Some ''GET'',
         body = None, signal = sg, query = None \<rparr> \<rparr>
   \<and> performs (checkSignalIndex k h sg) h
     \<lparr> url = DETECTION_ENGINE_ALERTS_INDEX_URL k,
       options = \<lparr> version = Some ''1'', httpMethod = Some ''GET'',
         body = None, signal = sg, query = None \<rparr> \<rparr>
   \<and> performs (getUserPrivilege k h sg) h
     \<lparr> url = DETECTION_ENGINE_PRIVILEGES_URL k,
       options = \<lparr> version = Some ''2023-10-31'', httpMethod = Some ''GET'',
         body = None, signal = sg, query = None \<rparr> \<rparr>
   \<and> performs (createSignalIndex k h sg) h
     \<lparr> url = DETECTION_ENGINE_INDEX_URL k,
       options = \<lparr> version = Some ''2023-10-31'', httpMethod = Some ''POST'',
         body = None, signal = sg, query = None \<rparr> \<rparr>
   \<and> performs (createHostIsolation k h endpointId cm caseIds agentType) h
     (isolateHostCall k \<lparr> endpoint_ids = [endpointId],
        comment = (case cm of None \<Rightarrow> '''' | Some s \<Rightarrow> s),
        case_ids = caseIds, agent_type = agentType \<rparr>)
   \<and> performs (createHostUnIsolation k h endpointId cm caseIds agentType) h
     (unIsolateHostCall k \<lparr> endpoint_ids = [endpointId],
        comment = (case cm of None \<Rightarrow> '''' | Some s \<Rightarrow> s),
        case_ids = caseIds, agent_type = agentType \<rparr>)
   \<and> performs (getCaseIdsFromAlertId k h alertId owner) h
     \<lparr> url = getCasesFromAlertsUrl k alertId,
       options = \<lparr> version = None, httpMethod = Some ''get'', body = None, signal = None,
         query = Some (if owner = [] then [] else [(''owner'', JArray (map JString owner))]) \<rparr> \<rparr>
   \<and> performs (getHostMetadata k h agentId sg) h
     \<lparr> url = resolvePathVariables k (HOST_METADATA_GET_ROUTE k) [(''id'', agentId)],
       options = \<lparr> version = Some ''2023-10-31'', httpMethod = Some ''GET'',
         body = None, signal = sg, query = None \<rparr> \<rparr>"
  by (simp add: performs_def fetch_def noOptions_def fetchQueryAlerts_def
        fetchQueryRuleRegistryAlerts_def updateAlertStatusByQuery_def updateAlertStatusByIds_def
        getSignalIndex_def checkSignalIndex_def getUserPrivilege_def createSignalIndex_def
        createHostIsolation_def createHostUnIsolation_def isolateHost_def unIsolateHost_def
        getCaseIdsFromAlertId_def getHostMetadata_def)

text \<open>
  C4. For every input, \<open>updateAlertStatusByQuery\<close> issues a POST to the signals
  status URL whose JSON body has exactly the conflict policy \<open>proceed\<close>, the target
  status and the query; \<open>updateAlertStatusByIds\<close> issues a POST to the same URL
  whose JSON body has exactly the target status and the signal ids, as
  \<open>signal_ids\<close>; both requests carry the supplied abort signal.
\<close>

theorem updateAlertStatus_requests:
  "map url (fst (updateAlertStatusByQuery k h q st sg)) = [DETECTION_ENGINE_SIGNALS_STATUS_URL k]
   \<and> map (httpMethod \<circ> options) (fst (updateAlertStatusByQuery k h q st sg)) = [Some ''POST'']
   \<and> map (body \<circ> options) (fst (updateAlertStatusByQuery k h q st sg)) =
       [Some (JSON_stringify (JObject
          [(''conflicts'', JString ''proceed''), (''status'', JString st), (''query'', q)]))]
   \<and> map (signal \<circ> options) (fst (updateAlertStatusByQuery k h q st sg)) = [sg]
   \<and> map url (fst (updateAlertStatusByIds k h ids st sg)) = [DETECTION_ENGINE_SIGNALS_STATUS_URL k]
   \<and> map (httpMethod \<circ> options) (fst (updateAlertStatusByIds k h ids st sg)) = [Some ''POST'']
   \<and> map (body \<circ> options) (fst (updateAlertStatusByIds k h ids st sg)) =
       [Some (JSON_stringify (JObject
          [(''status'', JString st), (''signal_ids'', JArray (map JString ids))]))]
   \<and> map (signal \<circ> options) (fst (updateAlertStatusByIds k h ids st sg)) = [sg]"
  by (simp add: updateAlertStatusByQuery_def updateAlertStatusByIds_def fetch_def noOptions_def)

text \<open>
  C8. \<open>getCaseIdsFromAlertId\<close> issues one request with the method \<open>get\<close> to the
  URL that \<open>getCasesFromAlertsUrl\<close> derives from the alert id, and the request has
  the query parameter \<open>owner\<close> if and only if the supplied owner list is not empty
  (it is then the owner list).
\<close>

theorem getCaseIdsFromAlertId_request:
  "map url (fst (getCaseIdsFromAlertId k h alertId owner)) = [getCasesFromAlertsUrl k alertId]
   \<and> map (httpMethod \<circ> options) (fst (getCaseIdsFromAlertId k h alertId owner)) = [Some ''get'']
   \<and> map (hasQueryParam ''owner'') (fst (getCaseIdsFromAlertId k h alertId owner)) = [owner \<noteq> []]
   \<and> map (query \<circ> options) (fst (getCaseIdsFromAlertId k h alertId owner)) =
       [Some (if owner = [] then [] else [(''owner'', JArray (map JString owner))])]"
  by (simp add: getCaseIdsFromAlertId_def fetch_def noOptions_def hasQueryParam_def)

section \<open>Properties of the threat-match input\<close>

lemma depsOfLastRender_mount: "depsOfLastRender gv (fst (mount gv props))"
  by (simp add: depsOfLastRender_def mount_def)

lemma depsOfLastRender_dispatch:
  "depsOfLastRender gv m \<Longrightarrow> depsOfLastRender gv (fst (dispatch gv ev m))"
  by (cases ev) (simp_all add: depsOfLastRender_def rerender_def)

lemma depsOfLastRender_runEvents:
  "depsOfLastRender gv m \<Longrightarrow> depsOfLastRender gv (fst (runEvents gv evs (m, calls)))"
  by (induction evs arbitrary: m calls) (simp_all add: depsOfLastRender_dispatch)

lemma depsOfLastRender_lifetime: "depsOfLastRender gv (fst (lifetime gv props evs))"
  unfolding lifetime_def
  using depsOfLastRender_runEvents
    [where gv = gv and m = "fst (mount gv props)" and evs = evs
       and calls = "snd (mount gv props)", OF depsOfLastRender_mount]
  by simp

lemma runEvents_extends:
  "\<exists>rest. snd (runEvents gv evs (m, calls)) = calls @ rest"
proof (induction evs arbitrary: m calls)
  case Nil
  show ?case by simp
next
  case (Cons ev evs)
  from Cons [of "fst (dispatch gv ev m)" "calls @ snd (dispatch gv ev m)"]
  show ?case by auto
qed

lemma lifetime_starts_with_mount:
  "\<exists>rest. snd (lifetime gv props evs) = snd (mount gv props) @ rest"
  unfolding lifetime_def
  using runEvents_extends [of gv evs "fst (mount gv props)" "snd (mount gv props)"]
  by simp

text \<open>
  C7. Whenever an \<open>onValidityChange\<close> callback is provided, it is invoked with the
  conjunction of the two validities: true exactly when the threat mapping field is not
  invalid and the threat index pattern query is valid. The first render invokes a
  provided callback. In a mounted component, a report of the query bar that changes the
  validity of the threat index pattern invokes the provided callback with the new
  conjunction, and so does a render with new props that changes the validity of the
  threat mapping field or the callback itself; when none of the three changes, nothing is
  invoked. No invocation carries another value. A change event of the list builder calls
  the \<open>setValue\<close> of the threat mapping field with the emitted entry items, and
  nothing else.
\<close>

theorem threatMatchInput_validity_and_change:
  "(onValidityChange props = Some cb \<longrightarrow>
      validityEffect gv props st =
        [Call_onValidityChange cb
           (\<not> fst (gv (threatMapping props)) \<and> isThreatIndexPatternValid st)])
   \<and> ((mount gv props = (m', calls) \<or> dispatch gv ev m = (m', calls)) \<and>
        Call_onValidityChange cb' b \<in> set calls \<longrightarrow>
        onValidityChange (currentProps m') = Some cb' \<and>
        b = (\<not> fst (gv (threatMapping (currentProps m'))) \<and>
             isThreatIndexPatternValid (currentState m')))
   \<and> dispatch gv (BuilderChange entryItems) m =
        (m, [Call_setValue (setValue (threatMapping (currentProps m))) entryItems])
   \<and> snd (mount gv props) =
        (case onValidityChange props of
           None \<Rightarrow> []
         | Some f \<Rightarrow> [Call_onValidityChange f
             (\<not> fst (gv (threatMapping props)) \<and>
              isThreatIndexPatternValid (currentState (fst (mount gv props))))])
   \<and> currentProps (fst (mount gv props)) = props
   \<and> (mnt = fst (lifetime gv props evs) \<longrightarrow>
        currentProps (fst (dispatch gv (QueryBarValidityChange v) mnt)) = currentProps mnt \<and>
        isThreatIndexPatternValid (currentState (fst (dispatch gv (QueryBarValidityChange v) mnt))) = v \<and>
        snd (dispatch gv (QueryBarValidityChange v) mnt) =
          (case onValidityChange (currentProps mnt) of
             None \<Rightarrow> []
           | Some f \<Rightarrow>
               if v = isThreatIndexPatternValid (currentState mnt) then []
               else [Call_onValidityChange f
                       (\<not> fst (gv (threatMapping (currentProps mnt))) \<and> v)]) \<and>
        currentProps (fst (dispatch gv (PropsChange props') mnt)) = props' \<and>
        currentState (fst (dispatch gv (PropsChange props') mnt)) = currentState mnt \<and>
        snd (dispatch gv (PropsChange props') mnt) =
          (case onValidityChange props' of
             None \<Rightarrow> []
           | Some f \<Rightarrow>
               if fst (gv (threatMapping props')) = fst (gv (threatMapping (currentProps mnt))) \<and>
                  onValidityChange props' = onValidityChange (currentProps mnt)
               then []
               else [Call_onValidityChange f
                       (\<not> fst (gv (threatMapping props')) \<and>
                        isThreatIndexPatternValid (currentState mnt))]))"
proof -
  have old: "(onValidityChange props = Some cb \<longrightarrow>
      validityEffect gv props st =
        [Call_onValidityChange cb
           (\<not> fst (gv (threatMapping props)) \<and> isThreatIndexPatternValid st)])
   \<and> ((mount gv props = (m', calls) \<or> dispatch gv ev m = (m', calls)) \<and>
        Call_onValidityChange cb' b \<in> set calls \<longrightarrow>
        onValidityChange (currentProps m') = Some cb' \<and>
        b = (\<not> fst (gv (threatMapping (currentProps m'))) \<and>
             isThreatIndexPatternValid (currentState m')))
   \<and> dispatch gv (BuilderChange entryItems) m =
        (m, [Call_setValue (setValue (threatMapping (currentProps m))) entryItems])"
    by (cases ev)
       (auto simp add: validityEffect_def mount_def rerender_def handleBuilderOnChange_def
          split: option.splits if_splits)
  have mnt: "snd (mount gv props) =
        (case onValidityChange props of
           None \<Rightarrow> []
         | Some f \<Rightarrow> [Call_onValidityChange f
             (\<not> fst (gv (threatMapping props)) \<and>
              isThreatIndexPatternValid (currentState (fst (mount gv props))))])"
    "currentProps (fst (mount gv props)) = props"
    by (simp_all add: mount_def validityEffect_def split: option.splits)
  have new: "mnt = fst (lifetime gv props evs) \<longrightarrow>
        currentProps (fst (dispatch gv (QueryBarValidityChange v) mnt)) = currentProps mnt \<and>
        isThreatIndexPatternValid (currentState (fst (dispatch gv (QueryBarValidityChange v) mnt))) = v \<and>
        snd (dispatch gv (QueryBarValidityChange v) mnt) =
          (case onValidityChange (currentProps mnt) of
             None \<Rightarrow> []
           | Some f \<Rightarrow>
               if v = isThreatIndexPatternValid (currentState mnt) then []
               else [Call_onValidityChange f
                       (\<not> fst (gv (threatMapping (currentProps mnt))) \<and> v)]) \<and>
        currentProps (fst (dispatch gv (PropsChange props') mnt)) = props' \<and>
        currentState (fst (dispatch gv (PropsChange props') mnt)) = currentState mnt \<and>
        snd (dispatch gv (PropsChange props') mnt) =
          (case onValidityChange props' of
             None \<Rightarrow> []
           | Some f \<Rightarrow>
               if fst (gv (threatMapping props')) = fst (gv (threatMapping (currentProps mnt))) \<and>
                  onValidityChange props' = onValidityChange (currentProps mnt)
               then []
               else [Call_onValidityChange f
                       (\<not> fst (gv (threatMapping props')) \<and>
                        isThreatIndexPatternValid (currentState mnt))])"
  proof
    assume "mnt = fst (lifetime gv props evs)"
    with depsOfLastRender_lifetime [of gv props evs]
    have d: "lastDeps mnt = effectDeps gv (currentProps mnt) (currentState mnt)"
      by (simp add: depsOfLastRender_def)
    show "currentProps (fst (dispatch gv (QueryBarValidityChange v) mnt)) = currentProps mnt \<and>
        isThreatIndexPatternValid (currentState (fst (dispatch gv (QueryBarValidityChange v) mnt))) = v \<and>
        snd (dispatch gv (QueryBarValidityChange v) mnt) =
          (case onValidityChange (currentProps mnt) of
             None \<Rightarrow> []
           | Some f \<Rightarrow>
               if v = isThreatIndexPatternValid (currentState mnt) then []
               else [Call_onValidityChange f
                       (\<not> fst (gv (threatMapping (currentProps mnt))) \<and> v)]) \<and>
        currentProps (fst (dispatch gv (PropsChange props') mnt)) = props' \<and>
        currentState (fst (dispatch gv (PropsChange props') mnt)) = currentState mnt \<and>
        snd (dispatch gv (PropsChange props') mnt) =
          (case onValidityChange props' of
             None \<Rightarrow> []
           | Some f \<Rightarrow>
               if fst (gv (threatMapping props')) = fst (gv (threatMapping (currentProps mnt))) \<and>
                  onValidityChange props' = onValidityChange (currentProps mnt)
               then []
               else [Call_onValidityChange f
                       (\<not> fst (gv (threatMapping props')) \<and>
                        isThreatIndexPatternValid (currentState mnt))])"
      by (auto simp add: d rerender_def effectDeps_def validityEffect_def
            setIsThreatIndexPatternValid_def split: option.splits)
  qed
  from old mnt new show ?thesis by blast
qed

theorem threatMatchInput_validity_and_change_witness:
  "onValidityChange exampleProps = Some 7
   \<and> validityEffect exampleValidity exampleProps \<lparr> isThreatIndexPatternValid = True \<rparr> =
       [Call_onValidityChange 7 True]
   \<and> dispatch exampleValidity (QueryBarValidityChange True) (fst (mount exampleValidity exampleProps)) =
       (\<lparr> currentProps = exampleProps, currentState = \<lparr> isThreatIndexPatternValid = True \<rparr>,
          lastDeps = (True, False, Some 7) \<rparr>,
        [Call_onValidityChange 7 True])
   \<and> Call_onValidityChange 7 True \<in> set [Call_onValidityChange 7 True :: nat invocation]
   \<and> True = (\<not> fst (exampleValidity (threatMapping exampleProps)) \<and> True)
   \<and> fst (mount exampleValidity exampleProps) = fst (lifetime exampleValidity exampleProps [])
   \<and> snd (mount exampleValidity exampleProps) = [Call_onValidityChange 7 False]
   \<and> snd (dispatch exampleValidity (QueryBarValidityChange True)
        (fst (mount exampleValidity exampleProps))) = [Call_onValidityChange 7 True]
   \<and> snd (dispatch exampleValidity (QueryBarValidityChange False)
        (fst (mount exampleValidity exampleProps))) = []
   \<and> snd (dispatch exampleValidity (PropsChange (exampleProps \<lparr> onValidityChange := Some 8 \<rparr>))
        (fst (mount exampleValidity exampleProps))) = [Call_onValidityChange 8 False]"
proof -
  have d: "dispatch exampleValidity (QueryBarValidityChange True)
             (fst (mount exampleValidity exampleProps)) =
       (\<lparr> currentProps = exampleProps, currentState = \<lparr> isThreatIndexPatternValid = True \<rparr>,
          lastDeps = (True, False, Some 7) \<rparr>,
        [Call_onValidityChange 7 True])"
    by (simp add: mount_def rerender_def effectDeps_def validityEffect_def initialState_def
          setIsThreatIndexPatternValid_def exampleValidity_def exampleProps_def)
  have p: "onValidityChange exampleProps = Some 7"
    by (simp add: exampleProps_def)
  have l: "fst (mount exampleValidity exampleProps) = fst (lifetime exampleValidity exampleProps [])"
    by (simp add: lifetime_def mount_def)
  have s: "currentProps (fst (mount exampleValidity exampleProps)) = exampleProps"
    "isThreatIndexPatternValid (currentState (fst (mount exampleValidity exampleProps))) = False"
    by (simp_all add: mount_def initialState_def)
  note t = threatMatchInput_validity_and_change
    [where props = exampleProps and cb = 7 and gv = exampleValidity
       and st = "\<lparr> isThreatIndexPatternValid = True \<rparr>"
       and ev = "QueryBarValidityChange True" and m = "fst (mount exampleValidity exampleProps)"
       and m' = "\<lparr> currentProps = exampleProps,
          currentState = \<lparr> isThreatIndexPatternValid = True \<rparr>,
          lastDeps = (True, False, Some 7) \<rparr>"
       and calls = "[Call_onValidityChange 7 True]" and cb' = 7 and b = True
       and mnt = "fst (mount exampleValidity exampleProps)" and evs = "[]"
       and props' = "exampleProps \<lparr> onValidityChange := Some 8 \<rparr>"]
  from t [where v = True] t [where v = False] d p l s
  show ?thesis by (simp add: exampleValidity_def exampleProps_def)
qed

text \<open>
  C10 (amended). On the first render the validity state of the threat index pattern is
  \<open>false\<close>, so when an \<open>onValidityChange\<close> callback is provided at the first
  render, the first invocation in the life of the component is the one of the first
  render and it reports \<open>false\<close>, whatever the validity of the threat mapping field
  and whatever events follow.
\<close>

theorem threatMatchInput_first_render:
  "isThreatIndexPatternValid (currentState (fst (mount gv props))) = False
   \<and> snd (mount gv (props \<lparr> onValidityChange := Some cb \<rparr>)) = [Call_onValidityChange cb False]
   \<and> take 1 (snd (lifetime gv (props \<lparr> onValidityChange := Some cb \<rparr>) evs)) =
       [Call_onValidityChange cb False]"
proof -
  have m: "snd (mount gv (props \<lparr> onValidityChange := Some cb \<rparr>)) = [Call_onValidityChange cb False]"
    by (simp add: mount_def initialState_def validityEffect_def)
  from lifetime_starts_with_mount [of gv "props \<lparr> onValidityChange := Some cb \<rparr>" evs] m
  have "take 1 (snd (lifetime gv (props \<lparr> onValidityChange := Some cb \<rparr>) evs)) =
       [Call_onValidityChange cb False]" by auto
  with m show ?thesis by (simp add: mount_def initialState_def)
qed

text \<open>
  The prop is optional. When the component is mounted without the callback, the query
  bar then reports a valid threat index pattern, and a later render provides the
  callback, the first invocation of the callback reports \<open>true\<close>: the first
  invocation of a provided callback does not always report \<open>false\<close>.
\<close>

theorem threatMatchInput_late_callback_counterexample:
  "snd (lifetime exampleValidity (exampleProps \<lparr> onValidityChange := None \<rparr>)
          [QueryBarValidityChange True, PropsChange exampleProps]) =
     [Call_onValidityChange 7 True]"
  by (simp add: lifetime_def mount_def rerender_def effectDeps_def validityEffect_def
        initialState_def setIsThreatIndexPatternValid_def exampleValidity_def exampleProps_def)

section \<open>Properties of the APM event client assembly\<close>


lemma settled_simps [simp]:
  "settled x \<noteq> Unstarted" "settled x \<noteq> Pending"
  "(settled x = Fulfilled v) = (x = Inr v)"
  by (cases x; simp)+

lemma afterPromiseAll_other [simp]:
  "indicesP (afterPromiseAll k r s) = indicesP s"
  "uiSettingsP (afterPromiseAll k r s) = uiSettingsP s"
  "coreP (afterPromiseAll k r s) = coreP s"
  "includeFrozenP (afterPromiseAll k r s) = includeFrozenP s"
  "excludedDataTiersP (afterPromiseAll k r s) = excludedDataTiersP s"
  by (simp_all add: afterPromiseAll_def split: promiseState.splits)



















end
